theory Spec2Isabelle
  imports Complex_Main "HOL-Library.Multiset"
begin

section \<open>The quiz session engine of script.js\<close>

text \<open>
  The script keeps its session in four global variables and shows it through six page
  elements. The model threads one record holding all of them. The page, the network and
  the random number generator are the script's environment:
  \<^item> an element is its text and its class list (a token list without repetitions, in
    insertion order); an option button also carries its \<open>disabled\<close> flag and the two
    arguments its click handler passes on;
  \<^item> the random source is the sequence of numbers that the coming calls of
    \<open>Math.random()\<close> return: a call reads entry 0 and shifts the sequence by one; the
    generator promises a number in the half-open interval from 0 to 1, which theorems
    about shuffles and message picks assume of the entries they read (outside that
    interval the model does not follow the script);
  \<^item> \<open>fetch\<close> and \<open>res.json()\<close> are summarised by the outcome they hand to the script.
  Numbers are naturals: the counters start at 0 and are only incremented.
\<close>

subsection \<open>Constants\<close>

definition QUIZ_LENGTH :: nat where
  "QUIZ_LENGTH = 10"

definition correctMessages :: "string list" where
  "correctMessages =
     [''Affirmative!'',
      ''Perfect resolution!'',
      ''Well done!'',
      ''You've got the satellite view.'',
      ''Mission success!'']"

definition incorrectMessages :: "string list" where
  "incorrectMessages =
     [''Missed the mark.'',
      ''Negative. Recalibrate your coordinates.'',
      ''That's not the right spectral band.'',
      ''Try again, surveyor.'',
      ''Nah, that ain't it...'']"

subsection \<open>Data\<close>

record question_record =
  question :: string
  options :: "string list"
  answer :: string

record element =
  textContent :: string
  classList :: "string list"

text \<open>
  \<open>onclick\<close> holds the pair \<open>(option, current.answer)\<close> captured by the arrow function
  that \<open>loadQuestion\<close> installs on the button.
\<close>

record button = element +
  disabled :: bool
  onclick :: "string \<times> string"

text \<open>
  The exceptions that can reach the \<open>catch\<close> of \<open>loadQuestionsAndInit\<close>, named by the
  statement that throws: \<open>fetch\<close> (line 48), the \<open>throw\<close> of line 49 with the response's
  status, \<open>res.json()\<close> (line 50), the spread of line 53, the read of \<open>current.question\<close>
  (line 96) and the spread of \<open>current.options\<close> (line 103).
\<close>

datatype load_error =
  FetchRejected
  | HttpError nat
  | JsonSyntaxError
  | NotIterable
  | CannotReadQuestion
  | OptionsNotIterable

text \<open>
  What \<open>res.json()\<close> gives: a body that is not JSON (the promise rejects), a JSON value
  that the spread \<open>[...quizData]\<close> cannot iterate (null, a boolean, a number, an object),
  or a value that is spread into a list of entries. The entries are question records when
  the bank is well formed (type \<open>question_record\<close>), and values of type \<open>entry\<close>, below,
  when nothing is known of the bank.
\<close>

datatype 'q payload =
  NotJson
  | NotSpreadable
  | Bank "'q list"

text \<open>What \<open>fetch\<close> gives: a rejected promise, or a response with \<open>ok\<close>, \<open>status\<close> and a body.\<close>

datatype 'q fetch_result =
  Rejected
  | Response bool nat "'q payload"

text \<open>
  An entry of a spread payload, as \<open>loadQuestion\<close> meets it:
  \<^item> a question record;
  \<^item> \<open>null\<close>, on which reading \<open>current.question\<close> throws;
  \<^item> any other value whose \<open>options\<close> cannot be spread, because the property is missing
    or is null, a number, a boolean or an object; it carries the text that the template
    literal of line 96 makes of its \<open>question\<close> (\<open>undefined\<close> when there is none). A
    string, a number, a boolean and an array have neither property, so they are of this
    kind, with the text \<open>undefined\<close>.
  Entries that can be presented without being records of texts, and entries holding a
  value that has no string form, are not represented.
\<close>

datatype entry =
  Record question_record
  | Unreadable
  | Unspreadable string

type_synonym random_source = "nat \<Rightarrow> rat"

text \<open>
  The session; \<open>'q\<close> is the type of the entries of \<open>activeQuizQuestions\<close>: question
  records in \<open>quiz\<close>, arbitrary entries in \<open>entry session\<close>.
\<close>

record 'q session =
  currentQuestionIndex :: nat
  score :: nat
  questionAnswered :: bool
  activeQuizQuestions :: "'q list"
  scoreDisplay :: element
  questionText :: element
  optionsContainer :: "button list"
  nextButton :: element
  restartButton :: element
  resultMessage :: element
  console :: "load_error list"
  rng :: random_source

type_synonym quiz = "question_record session"

subsection \<open>Environment: class lists, number formatting, random indices\<close>

definition classList_add :: "string list \<Rightarrow> ('a element_scheme) \<Rightarrow> ('a element_scheme)" where
  "classList_add tokens e =
     e\<lparr>classList := foldl (\<lambda>cs t. if t \<in> set cs then cs else cs @ [t]) (classList e) tokens\<rparr>"

definition classList_remove :: "string list \<Rightarrow> ('a element_scheme) \<Rightarrow> ('a element_scheme)" where
  "classList_remove tokens e =
     e\<lparr>classList := filter (\<lambda>c. c \<notin> set tokens) (classList e)\<rparr>"

definition digit_char :: "nat \<Rightarrow> char" where
  "digit_char d = ''0123456789'' ! d"

text \<open>A template literal's rendering of a non-negative integer: its decimal digits.\<close>

function show_nat :: "nat \<Rightarrow> string" where
  "show_nat n = (if n < 10 then [digit_char n] else show_nat (n div 10) @ [digit_char (n mod 10)])"
  by pat_completeness auto
termination
  by (relation "measure id") auto

declare show_nat.simps [simp del]

text \<open>
  \<open>Math.floor(r * n)\<close> for a draw \<open>r\<close>; it is below \<open>n\<close> when \<open>0 \<le> r < 1\<close>. The
  product here is the exact one. The script's product is rounded to a double, so at some
  draws the script's index is the next one up: at the double nearest to 0.6 with
  \<open>n = 5\<close> the script gets 3 and this function 2. The script's index stays below \<open>n\<close> as
  well. The theorems below therefore say of a drawn index only that it is in range, and
  of a shuffle only what holds for every choice of in-range indices.
\<close>

definition random_index :: "rat \<Rightarrow> nat \<Rightarrow> nat" where
  "random_index r n = nat \<lfloor>r * of_nat n\<rfloor>"

text \<open>The random source after one call of \<open>Math.random()\<close>, which returned \<open>g 0\<close>.\<close>

definition next_random :: "random_source \<Rightarrow> random_source" where
  "next_random g = (\<lambda>n. g (Suc n))"

subsection \<open>shuffleArray\<close>

text \<open>
  The loop of \<open>shuffleArray\<close>, entered with the counter \<open>i\<close>: it stops at \<open>i = 0\<close>, and
  otherwise draws \<open>j\<close>, swaps the entries \<open>i\<close> and \<open>j\<close> (both right-hand sides are read
  before either is written) and goes on with \<open>i - 1\<close>.
\<close>

fun shuffle_loop :: "nat \<Rightarrow> 'a list \<Rightarrow> random_source \<Rightarrow> 'a list \<times> random_source" where
  "shuffle_loop 0 array g = (array, g)"
| "shuffle_loop (Suc i) array g =
     (let j = random_index (g 0) (Suc i + 1)
      in shuffle_loop i (array[Suc i := array ! j, j := array ! Suc i]) (next_random g))"

definition shuffleArray :: "'a list \<Rightarrow> random_source \<Rightarrow> 'a list \<times> random_source" where
  "shuffleArray array g =
     (if array = [] then (array, g) else shuffle_loop (length array - 1) array g)"

subsection \<open>The session functions\<close>

definition showMessage :: "string \<Rightarrow> string \<Rightarrow> string \<Rightarrow> 'q session \<Rightarrow> 'q session" where
  "showMessage message bgColorClass textColorClass st =
     st\<lparr>resultMessage :=
          classList_add [bgColorClass, textColorClass]
            (classList_remove
               [''hidden'', ''bg-yellow-900/50'', ''text-yellow-300'', ''bg-emerald-900/50'',
                ''text-emerald-300'', ''bg-red-900/50'', ''text-red-300'']
               ((resultMessage st)\<lparr>textContent := message\<rparr>))\<rparr>"

definition updateScoreDisplay :: "'q session \<Rightarrow> 'q session" where
  "updateScoreDisplay st =
     st\<lparr>scoreDisplay := (scoreDisplay st)\<lparr>textContent :=
          ''Score: '' @ show_nat (score st) @ '' / '' @
          show_nat (if length (activeQuizQuestions st) \<noteq> 0
                    then length (activeQuizQuestions st) else QUIZ_LENGTH)\<rparr>\<rparr>"

definition finalMessage :: "nat \<Rightarrow> nat \<Rightarrow> string" where
  "finalMessage s len =
     (if s = len
      then ''You've achieved perfect resolution! All correct!''
      else ''You scored '' @ show_nat s @ '' out of '' @ show_nat len @
           ''. Keep learning about our world!'')"

definition showResults :: "'q session \<Rightarrow> 'q session" where
  "showResults st =
     showMessage (finalMessage (score st) (length (activeQuizQuestions st)))
       ''bg-indigo-900/50'' ''text-indigo-300''
       (st\<lparr>questionText := (questionText st)\<lparr>textContent := ''Quiz Complete!''\<rparr>,
           optionsContainer := [],
           nextButton := classList_add [''hidden''] (nextButton st),
           restartButton := classList_remove [''hidden''] (restartButton st)\<rparr>)"

definition createButton :: "string \<Rightarrow> string \<Rightarrow> button" where
  "createButton option correctAnswer =
     classList_add
       [''option-button'',
        ''py-3'', ''px-4'', ''text-white'', ''font-medium'', ''rounded-lg'',
        ''shadow-md'', ''text-left'', ''transition'', ''duration-150'',
        ''bg-gray-600'', ''hover:bg-indigo-500'', ''focus:outline-none'', ''focus:ring-4'',
        ''focus:ring-indigo-500'', ''focus:ring-opacity-50'']
       \<lparr>textContent = option, classList = [], disabled = False,
        onclick = (option, correctAnswer)\<rparr>"

definition loadQuestion :: "quiz \<Rightarrow> quiz" where
  "loadQuestion st =
     (if currentQuestionIndex st \<ge> length (activeQuizQuestions st) then showResults st
      else
        let current = activeQuizQuestions st ! currentQuestionIndex st;
            (shuffledOptions, g) = shuffleArray (options current) (rng st)
        in st\<lparr>questionText := (questionText st)\<lparr>textContent :=
                 ''Q'' @ show_nat (currentQuestionIndex st + 1) @ '': '' @ question current\<rparr>,
               nextButton := classList_add [''hidden''] (nextButton st),
               resultMessage := classList_add [''hidden''] (resultMessage st),
               questionAnswered := False,
               optionsContainer := map (\<lambda>option. createButton option (answer current)) shuffledOptions,
               rng := g\<rparr>)"

definition initQuiz :: "quiz \<Rightarrow> quiz" where
  "initQuiz st =
     loadQuestion
       ((updateScoreDisplay (st\<lparr>currentQuestionIndex := 0, score := 0, questionAnswered := False\<rparr>))
          \<lparr>restartButton := classList_add [''hidden''] (restartButton st),
           resultMessage := classList_add [''hidden''] (resultMessage st)\<rparr>)"

definition nextQuestion :: "quiz \<Rightarrow> quiz" where
  "nextQuestion st = loadQuestion (st\<lparr>currentQuestionIndex := currentQuestionIndex st + 1\<rparr>)"

text \<open>
  \<open>querySelectorAll('.option-button').forEach(f)\<close>: \<open>f\<close> is applied to the buttons of the
  options container that carry the class.
\<close>

definition forEach_option_button :: "(button \<Rightarrow> button) \<Rightarrow> button list \<Rightarrow> button list" where
  "forEach_option_button f bs = map (\<lambda>b. if ''option-button'' \<in> set (classList b) then f b else b) bs"

text \<open>
  \<open>selectedButton\<close> is the position of the clicked button in the options container; a
  position past its end stands for a button that is no longer on the page, whose
  restyling shows nowhere.
\<close>

definition checkAnswer :: "nat \<Rightarrow> string \<Rightarrow> string \<Rightarrow> 'q session \<Rightarrow> 'q session" where
  "checkAnswer selectedButton selectedOption correctAnswer st =
     (if questionAnswered st then st
      else
        let isCorrect = (selectedOption = correctAnswer);
            st1 = st\<lparr>questionAnswered := True\<rparr>;
            st2 = st1\<lparr>optionsContainer :=
                    forEach_option_button
                      (\<lambda>btn. classList_remove [''focus:ring-indigo-500'']
                               (classList_remove [''hover:bg-indigo-500'']
                                  (btn\<lparr>disabled := True\<rparr>)))
                      (optionsContainer st1)\<rparr>;
            st3 = st2\<lparr>optionsContainer :=
                    forEach_option_button
                      (\<lambda>btn. if textContent btn = correctAnswer
                             then classList_add [''bg-emerald-600'', ''ring-2'', ''ring-emerald-400'']
                                    (classList_remove [''bg-gray-600''] btn)
                             else btn)
                      (optionsContainer st2)\<rparr>;
            r = rng st3 0;
            st4 =
              (if isCorrect then
                 showMessage (correctMessages ! random_index r (length correctMessages))
                   ''bg-emerald-900/50'' ''text-emerald-300''
                   (st3\<lparr>score := score st3 + 1,
                        optionsContainer :=
                          (if selectedButton < length (optionsContainer st3)
                           then (optionsContainer st3)
                                  [selectedButton :=
                                     classList_add [''ring-4'', ''ring-emerald-300/80'']
                                       (optionsContainer st3 ! selectedButton)]
                           else optionsContainer st3),
                        rng := next_random (rng st3)\<rparr>)
               else
                 showMessage
                   (incorrectMessages ! random_index r (length incorrectMessages) @
                    '' The correct answer was: '' @ correctAnswer @ ''.'')
                   ''bg-red-900/50'' ''text-red-300''
                   (st3\<lparr>optionsContainer :=
                          (if selectedButton < length (optionsContainer st3)
                           then (optionsContainer st3)
                                  [selectedButton :=
                                     classList_add [''bg-red-600'', ''ring-4'', ''ring-red-300/80'']
                                       (classList_remove [''bg-gray-600'']
                                          (optionsContainer st3 ! selectedButton))]
                           else optionsContainer st3),
                        rng := next_random (rng st3)\<rparr>))
        in (updateScoreDisplay st4)\<lparr>nextButton := classList_remove [''hidden''] (nextButton st4)\<rparr>)"

text \<open>
  What a call of \<open>checkAnswer\<close> hands back to its caller. Line 124 is a bare \<open>return\<close> and
  the other path runs off the end of the body, so both give \<open>undefined\<close>; no path
  returns a value.
\<close>

datatype js_value = Undefined | Value string

definition checkAnswer_value :: "nat \<Rightarrow> string \<Rightarrow> string \<Rightarrow> 'q session \<Rightarrow> js_value" where
  "checkAnswer_value selectedButton selectedOption correctAnswer st =
     (if questionAnswered st then Undefined else Undefined)"

text \<open>
  Lines 53 to 55 of \<open>loadQuestionsAndInit\<close>: a copy of the bank is shuffled and its
  first \<open>QUIZ_LENGTH\<close> entries are kept (\<open>slice\<close> stops at the end of a shorter array).
\<close>

definition sampleQuestions :: "'q list \<Rightarrow> random_source \<Rightarrow> 'q list \<times> random_source" where
  "sampleQuestions quizData g =
     (let (shuffled, g') = shuffleArray quizData g in (take QUIZ_LENGTH shuffled, g'))"

text \<open>
  The \<open>try\<close> block of \<open>loadQuestionsAndInit\<close> on a bank of question records: \<open>Inl\<close> is the
  exception that reaches the \<open>catch\<close>, \<open>Inr\<close> the state after \<open>initQuiz\<close>. On question
  records \<open>initQuiz\<close> cannot throw, so every throw comes before the first assignment and
  the \<open>catch\<close> runs on the state the function was entered with. The same function on
  arbitrary entries is \<open>loadQuestionsAndInit_any\<close>, below.
\<close>

definition tryLoad :: "question_record fetch_result \<Rightarrow> quiz \<Rightarrow> load_error + quiz" where
  "tryLoad res st =
     (case res of
        Rejected \<Rightarrow> Inl FetchRejected
      | Response ok status body \<Rightarrow>
          if \<not> ok then Inl (HttpError status)
          else (case body of
                  NotJson \<Rightarrow> Inl JsonSyntaxError
                | NotSpreadable \<Rightarrow> Inl NotIterable
                | Bank quizData \<Rightarrow>
                    let (active, g) = sampleQuestions quizData (rng st)
                    in Inr (initQuiz (st\<lparr>activeQuizQuestions := active, rng := g\<rparr>))))"

definition loadQuestionsAndInit :: "question_record fetch_result \<Rightarrow> quiz \<Rightarrow> quiz" where
  "loadQuestionsAndInit res st =
     (case tryLoad res st of
        Inr st' \<Rightarrow> st'
      | Inl err \<Rightarrow>
          st\<lparr>console := console st @ [err],
             questionText := (questionText st)\<lparr>textContent :=
               ''Failed to load questions. Please make sure questions.json is available.''\<rparr>\<rparr>)"

subsection \<open>Loading a payload of arbitrary entries\<close>

text \<open>
  When the entries need not be question records, \<open>loadQuestion\<close> can throw, and with it
  \<open>initQuiz\<close>, which \<open>loadQuestionsAndInit\<close> calls inside its \<open>try\<close>. A call then either
  returns or throws, and in both cases leaves the state it has written so far.
\<close>

datatype 'a outcome = Returned 'a | Threw load_error 'a

text \<open>
  \<open>loadQuestion\<close> on arbitrary entries. On \<open>null\<close> line 96 throws before anything is
  written. On an entry without iterable options lines 96 to 100 run and line 103 throws.
  On a question record the function does what \<open>loadQuestion\<close> above does.
\<close>

definition loadQuestion_any :: "entry session \<Rightarrow> entry session outcome" where
  "loadQuestion_any st =
     (if currentQuestionIndex st \<ge> length (activeQuizQuestions st) then Returned (showResults st)
      else
        case activeQuizQuestions st ! currentQuestionIndex st of
          Unreadable \<Rightarrow> Threw CannotReadQuestion st
        | Unspreadable questionString \<Rightarrow>
            Threw OptionsNotIterable
              (st\<lparr>questionText := (questionText st)\<lparr>textContent :=
                    ''Q'' @ show_nat (currentQuestionIndex st + 1) @ '': '' @ questionString\<rparr>,
                  optionsContainer := [],
                  nextButton := classList_add [''hidden''] (nextButton st),
                  resultMessage := classList_add [''hidden''] (resultMessage st),
                  questionAnswered := False\<rparr>)
        | Record current \<Rightarrow>
            let (shuffledOptions, g) = shuffleArray (options current) (rng st)
            in Returned
                 (st\<lparr>questionText := (questionText st)\<lparr>textContent :=
                       ''Q'' @ show_nat (currentQuestionIndex st + 1) @ '': '' @ question current\<rparr>,
                     nextButton := classList_add [''hidden''] (nextButton st),
                     resultMessage := classList_add [''hidden''] (resultMessage st),
                     questionAnswered := False,
                     optionsContainer :=
                       map (\<lambda>option. createButton option (answer current)) shuffledOptions,
                     rng := g\<rparr>))"

definition initQuiz_any :: "entry session \<Rightarrow> entry session outcome" where
  "initQuiz_any st =
     loadQuestion_any
       ((updateScoreDisplay (st\<lparr>currentQuestionIndex := 0, score := 0, questionAnswered := False\<rparr>))
          \<lparr>restartButton := classList_add [''hidden''] (restartButton st),
           resultMessage := classList_add [''hidden''] (resultMessage st)\<rparr>)"

text \<open>The \<open>try\<close> block: the four throws before the sampling leave the state untouched.\<close>

definition tryLoad_any :: "entry fetch_result \<Rightarrow> entry session \<Rightarrow> entry session outcome" where
  "tryLoad_any res st =
     (case res of
        Rejected \<Rightarrow> Threw FetchRejected st
      | Response ok status body \<Rightarrow>
          if \<not> ok then Threw (HttpError status) st
          else (case body of
                  NotJson \<Rightarrow> Threw JsonSyntaxError st
                | NotSpreadable \<Rightarrow> Threw NotIterable st
                | Bank quizData \<Rightarrow>
                    let (active, g) = sampleQuestions quizData (rng st)
                    in initQuiz_any (st\<lparr>activeQuizQuestions := active, rng := g\<rparr>)))"

text \<open>The \<open>catch\<close> logs the exception and writes the failure text over whatever was written.\<close>

definition loadQuestionsAndInit_any :: "entry fetch_result \<Rightarrow> entry session \<Rightarrow> entry session" where
  "loadQuestionsAndInit_any res st =
     (case tryLoad_any res st of
        Returned st' \<Rightarrow> st'
      | Threw err st' \<Rightarrow>
          st'\<lparr>console := console st' @ [err],
              questionText := (questionText st')\<lparr>textContent :=
                ''Failed to load questions. Please make sure questions.json is available.''\<rparr>\<rparr>)"



text \<open>A session of question records, read as a session of entries.\<close>

definition as_entries :: "quiz \<Rightarrow> entry session" where
  "as_entries st =
     \<lparr>currentQuestionIndex = currentQuestionIndex st, score = score st,
      questionAnswered = questionAnswered st,
      activeQuizQuestions = map Record (activeQuizQuestions st),
      scoreDisplay = scoreDisplay st, questionText = questionText st,
      optionsContainer = optionsContainer st, nextButton = nextButton st,
      restartButton = restartButton st, resultMessage = resultMessage st,
      console = console st, rng = rng st\<rparr>"

subsection \<open>Example inputs\<close>

text \<open>
  The session variables as the script's top level initialises them, on a page whose
  elements are still empty; three random sources; a few question records; the state
  after loading a bank of two questions; and the fresh page as a session of entries.
\<close>

definition blank :: element where
  "blank = \<lparr>textContent = [], classList = []\<rparr>"

definition script_loaded :: "random_source \<Rightarrow> quiz" where
  "script_loaded g =
     \<lparr>currentQuestionIndex = 0, score = 0, questionAnswered = False, activeQuizQuestions = [],
      scoreDisplay = blank, questionText = blank, optionsContainer = [],
      nextButton = blank, restartButton = blank, resultMessage = blank,
      console = [], rng = g\<rparr>"

definition half :: random_source where
  "half = (\<lambda>n. 1 / 2)"

definition low :: random_source where
  "low = (\<lambda>n. 0)"

definition first_low :: random_source where
  "first_low = (\<lambda>n. if n = 0 then 0 else 1 / 2)"

definition fish :: question_record where
  "fish = \<lparr>question = ''Fish?'', options = [''catfish'', ''sturgeon'', ''trout''],
           answer = ''sturgeon''\<rparr>"

definition river :: question_record where
  "river = \<lparr>question = ''River?'', options = [''Nile'', ''Ob''], answer = ''Ob''\<rparr>"

definition numbered :: "nat \<Rightarrow> question_record" where
  "numbered n = \<lparr>question = show_nat n, options = [''yes'', ''no''], answer = ''yes''\<rparr>"

definition first_session :: quiz where
  "first_session =
     loadQuestionsAndInit (Response True 200 (Bank [fish, river])) (script_loaded first_low)"


section \<open>Properties\<close>

subsection \<open>Random indices and the shuffle\<close>

lemma random_index_less:
  assumes "0 \<le> r" "r < 1" "0 < n"
  shows "random_index r n < n"
proof -
  have "r * of_nat n < 1 * of_nat n"
    using assms by (intro mult_strict_right_mono) simp_all
  then have "r * of_nat n < of_int (int n)" by simp
  then have "\<lfloor>r * of_nat n\<rfloor> < int n" by (simp only: floor_less_iff)
  moreover have "0 \<le> \<lfloor>r * of_nat n\<rfloor>" using assms by simp
  ultimately show ?thesis unfolding random_index_def by linarith
qed

lemma floor_numeral_quotient:
  "\<lfloor>(numeral a :: rat) / numeral b\<rfloor> = numeral a div numeral b"
  using floor_divide_of_int_eq [of "numeral a" "numeral b", where ?'a = rat] by simp

lemma shuffle_loop_length: "length (fst (shuffle_loop i xs g)) = length xs"
  by (induction i arbitrary: xs g) (simp_all add: Let_def)

lemma unit_draws_next:
  "\<forall>n. 0 \<le> g n \<and> g n < 1 \<Longrightarrow> \<forall>n. 0 \<le> next_random g n \<and> next_random g n < 1"
  by (simp add: next_random_def)

text \<open>Each round swaps two entries that exist, so the loop permutes the array.\<close>

lemma shuffle_loop_mset:
  assumes "i < length xs" "\<forall>n. 0 \<le> g n \<and> g n < 1"
  shows "mset (fst (shuffle_loop i xs g)) = mset xs"
  using assms
proof (induction i arbitrary: xs g)
  case 0
  then show ?case by simp
next
  case (Suc i)
  let ?j = "random_index (g 0) (Suc i + 1)"
  from Suc.prems have "?j < Suc i + 1" by (intro random_index_less) auto
  with Suc.prems have j: "?j < length xs" by simp
  have swap: "mset (xs[Suc i := xs ! ?j, ?j := xs ! Suc i]) = mset xs"
    using mset_swap [OF j Suc.prems(1)] .
  have "mset (fst (shuffle_loop i (xs[Suc i := xs ! ?j, ?j := xs ! Suc i]) (next_random g))) =
        mset (xs[Suc i := xs ! ?j, ?j := xs ! Suc i])"
    using Suc.prems by (intro Suc.IH unit_draws_next) simp_all
  with swap show ?case by (simp add: Let_def)
qed

text \<open>The loop moves entries without looking at them: it commutes with \<open>map\<close>.\<close>

lemma shuffle_loop_map:
  assumes "i < length xs" "\<forall>n. 0 \<le> g n \<and> g n < 1"
  shows "fst (shuffle_loop i (map f xs) g) = map f (fst (shuffle_loop i xs g))"
  using assms
proof (induction i arbitrary: xs g)
  case 0
  then show ?case by simp
next
  case (Suc i)
  let ?j = "random_index (g 0) (Suc i + 1)"
  from Suc.prems have "?j < Suc i + 1" by (intro random_index_less) auto
  with Suc.prems have j: "?j < length xs" by simp
  have upd: "(map f xs)[Suc i := map f xs ! ?j, ?j := map f xs ! Suc i] =
             map f (xs[Suc i := xs ! ?j, ?j := xs ! Suc i])"
    using j Suc.prems(1) by (simp add: map_update)
  have "fst (shuffle_loop i (map f (xs[Suc i := xs ! ?j, ?j := xs ! Suc i])) (next_random g)) =
        map f (fst (shuffle_loop i (xs[Suc i := xs ! ?j, ?j := xs ! Suc i]) (next_random g)))"
    using Suc.prems by (intro Suc.IH unit_draws_next) simp_all
  with upd show ?case by (simp add: Let_def)
qed

lemma shuffleArray_length: "length (fst (shuffleArray xs g)) = length xs"
  by (simp add: shuffleArray_def shuffle_loop_length)

lemma shuffleArray_mset:
  "\<forall>n. 0 \<le> g n \<and> g n < 1 \<Longrightarrow> mset (fst (shuffleArray xs g)) = mset xs"
  by (cases "xs = []") (simp_all add: shuffleArray_def shuffle_loop_mset)

lemma shuffleArray_map:
  "\<forall>n. 0 \<le> g n \<and> g n < 1 \<Longrightarrow>
   fst (shuffleArray (map f xs) g) = map f (fst (shuffleArray xs g))"
  by (cases "xs = []") (simp_all add: shuffleArray_def shuffle_loop_map)

text \<open>
  The shuffled array read through positions: it lists the entries of the original at a
  rearrangement of \<open>0, \<dots>, length xs - 1\<close>.
\<close>

lemma shuffleArray_positions:
  assumes "\<forall>n. 0 \<le> g n \<and> g n < 1"
  shows "\<exists>ps. mset ps = mset [0..<length xs] \<and> fst (shuffleArray xs g) = map (nth xs) ps"
proof -
  let ?ps = "fst (shuffleArray [0..<length xs] g)"
  have "mset ?ps = mset [0..<length xs]" using assms by (rule shuffleArray_mset)
  moreover have "fst (shuffleArray (map (nth xs) [0..<length xs]) g) = map (nth xs) ?ps"
    using assms by (rule shuffleArray_map)
  then have "fst (shuffleArray xs g) = map (nth xs) ?ps" by (simp add: map_nth)
  ultimately show ?thesis by blast
qed

subsection \<open>Sampling: the first ten of the shuffled bank\<close>

lemma sampleQuestions_fst:
  "fst (sampleQuestions bank g) = take QUIZ_LENGTH (fst (shuffleArray bank g))"
  by (simp add: sampleQuestions_def split_beta)

lemma mset_take_subseteq: "mset (take k xs) \<subseteq># mset xs"
proof -
  have "mset xs = mset (take k xs) + mset (drop k xs)"
    by (metis append_take_drop_id mset_append)
  then show ?thesis by simp
qed

lemma sampleQuestions_length:
  "length (fst (sampleQuestions bank g)) = min QUIZ_LENGTH (length bank)"
  by (simp add: sampleQuestions_fst shuffleArray_length)

lemma sampleQuestions_positions:
  assumes "\<forall>n. 0 \<le> g n \<and> g n < 1"
  shows "\<exists>ps. distinct ps \<and> set ps \<subseteq> {..<length bank} \<and>
              length ps = min QUIZ_LENGTH (length bank) \<and>
              fst (sampleQuestions bank g) = map (nth bank) ps"
proof -
  from shuffleArray_positions [OF assms, of bank] obtain ps where
    ps: "mset ps = mset [0..<length bank]" and sh: "fst (shuffleArray bank g) = map (nth bank) ps"
    by blast
  have d: "distinct ps" using ps by (metis distinct_upt mset_eq_imp_distinct_iff)
  have s: "set ps = {0..<length bank}" using ps by (metis mset_eq_setD set_upt)
  have l: "length ps = length bank" using ps by (metis mset_eq_length length_upt minus_nat.diff_0)
  let ?qs = "take QUIZ_LENGTH ps"
  have "distinct ?qs" using d by (rule distinct_take)
  moreover have "set ?qs \<subseteq> {..<length bank}" using s set_take_subset [of QUIZ_LENGTH ps] by auto
  moreover have "length ?qs = min QUIZ_LENGTH (length bank)" using l by simp
  moreover have "fst (sampleQuestions bank g) = map (nth bank) ?qs"
    by (simp add: sampleQuestions_fst sh take_map)
  ultimately show ?thesis by blast
qed

lemma sampleQuestions_mset:
  assumes "\<forall>n. 0 \<le> g n \<and> g n < 1"
  shows "mset (fst (sampleQuestions bank g)) \<subseteq># mset bank"
  using mset_take_subseteq [of QUIZ_LENGTH "fst (shuffleArray bank g)"]
    shuffleArray_mset [OF assms, of bank]
  by (simp add: sampleQuestions_fst)

lemma sampleQuestions_short:
  assumes "\<forall>n. 0 \<le> g n \<and> g n < 1" "length bank \<le> QUIZ_LENGTH"
  shows "mset (fst (sampleQuestions bank g)) = mset bank"
  using assms shuffleArray_mset [OF assms(1), of bank]
  by (simp add: sampleQuestions_fst shuffleArray_length)

subsection \<open>What each function leaves alone\<close>

lemma classList_add_textContent: "textContent (classList_add ts e) = textContent e"
  by (simp add: classList_add_def)

lemma classList_remove_textContent: "textContent (classList_remove ts e) = textContent e"
  by (simp add: classList_remove_def)

lemma hidden_removed: "''hidden'' \<notin> set (classList (classList_remove [''hidden''] e))"
  by (simp add: classList_remove_def)

lemma showMessage_fields:
  "score (showMessage m b t st) = score st"
  "questionAnswered (showMessage m b t st) = questionAnswered st"
  "currentQuestionIndex (showMessage m b t st) = currentQuestionIndex st"
  "activeQuizQuestions (showMessage m b t st) = activeQuizQuestions st"
  "optionsContainer (showMessage m b t st) = optionsContainer st"
  "questionText (showMessage m b t st) = questionText st"
  "restartButton (showMessage m b t st) = restartButton st"
  "nextButton (showMessage m b t st) = nextButton st"
  "console (showMessage m b t st) = console st"
  "rng (showMessage m b t st) = rng st"
  "textContent (resultMessage (showMessage m b t st)) = m"
  by (simp_all add: showMessage_def classList_add_textContent classList_remove_textContent)

lemma showMessage_visible:
  assumes "bg \<noteq> ''hidden''" "tx \<noteq> ''hidden''"
  shows "''hidden'' \<notin> set (classList (resultMessage (showMessage m bg tx st)))"
  using assms by (simp add: showMessage_def classList_add_def classList_remove_def)

lemma updateScoreDisplay_fields:
  "score (updateScoreDisplay st) = score st"
  "questionAnswered (updateScoreDisplay st) = questionAnswered st"
  "currentQuestionIndex (updateScoreDisplay st) = currentQuestionIndex st"
  "activeQuizQuestions (updateScoreDisplay st) = activeQuizQuestions st"
  "optionsContainer (updateScoreDisplay st) = optionsContainer st"
  "questionText (updateScoreDisplay st) = questionText st"
  "resultMessage (updateScoreDisplay st) = resultMessage st"
  "restartButton (updateScoreDisplay st) = restartButton st"
  "nextButton (updateScoreDisplay st) = nextButton st"
  "console (updateScoreDisplay st) = console st"
  "rng (updateScoreDisplay st) = rng st"
  by (simp_all add: updateScoreDisplay_def)

lemma showResults_fields:
  "score (showResults st) = score st"
  "questionAnswered (showResults st) = questionAnswered st"
  "currentQuestionIndex (showResults st) = currentQuestionIndex st"
  "activeQuizQuestions (showResults st) = activeQuizQuestions st"
  "console (showResults st) = console st"
  "rng (showResults st) = rng st"
  "optionsContainer (showResults st) = []"
  "textContent (questionText (showResults st)) = ''Quiz Complete!''"
  "textContent (resultMessage (showResults st)) =
     finalMessage (score st) (length (activeQuizQuestions st))"
  by (simp_all add: showResults_def showMessage_fields)

lemma loadQuestion_fields:
  "score (loadQuestion st) = score st"
  "currentQuestionIndex (loadQuestion st) = currentQuestionIndex st"
  "activeQuizQuestions (loadQuestion st) = activeQuizQuestions st"
  "console (loadQuestion st) = console st"
  by (simp_all add: loadQuestion_def showResults_fields Let_def split_beta)

lemma loadQuestion_unanswered:
  "\<not> questionAnswered st \<or> currentQuestionIndex st < length (activeQuizQuestions st) \<Longrightarrow>
   \<not> questionAnswered (loadQuestion st)"
  by (auto simp add: loadQuestion_def showResults_fields Let_def split_beta)

lemma loadQuestion_rng:
  "rng (loadQuestion st) =
     (if currentQuestionIndex st \<ge> length (activeQuizQuestions st) then rng st
      else snd (shuffleArray (options (activeQuizQuestions st ! currentQuestionIndex st)) (rng st)))"
  by (simp add: loadQuestion_def showResults_fields Let_def split_beta)

lemma createButton_textContent: "textContent (createButton opt ans) = opt"
  by (simp add: createButton_def classList_add_textContent)

text \<open>The texts on the buttons, in order, are the shuffled copy of the question's options.\<close>

lemma loadQuestion_presented:
  assumes "currentQuestionIndex st < length (activeQuizQuestions st)"
  shows "map textContent (optionsContainer (loadQuestion st)) =
         fst (shuffleArray (options (activeQuizQuestions st ! currentQuestionIndex st)) (rng st))"
  using assms
  by (simp add: loadQuestion_def Let_def split_beta comp_def createButton_textContent)

lemma initQuiz_fields:
  "score (initQuiz st) = 0"
  "currentQuestionIndex (initQuiz st) = 0"
  "activeQuizQuestions (initQuiz st) = activeQuizQuestions st"
  "console (initQuiz st) = console st"
  "\<not> questionAnswered (initQuiz st)"
  by (simp_all add: initQuiz_def loadQuestion_fields loadQuestion_unanswered
      updateScoreDisplay_fields)

lemma initQuiz_rng:
  "rng (initQuiz st) =
     (if activeQuizQuestions st = [] then rng st
      else snd (shuffleArray (options (activeQuizQuestions st ! 0)) (rng st)))"
  by (simp add: initQuiz_def loadQuestion_rng updateScoreDisplay_fields)

lemma tryLoad_Bank:
  "tryLoad (Response True status (Bank bank)) st =
     Inr (initQuiz (st\<lparr>activeQuizQuestions := fst (sampleQuestions bank (rng st)),
                      rng := snd (sampleQuestions bank (rng st))\<rparr>))"
  by (simp add: tryLoad_def split_beta)

lemma loaded_activeQuizQuestions:
  "activeQuizQuestions (loadQuestionsAndInit (Response True status (Bank bank)) st) =
     fst (sampleQuestions bank (rng st))"
  by (simp add: loadQuestionsAndInit_def tryLoad_Bank initQuiz_fields)

text \<open>
  The example session: the first draw is 0, so the two questions are swapped; every
  later draw is one half.
\<close>

lemma first_session_questions: "activeQuizQuestions first_session = [river, fish]"
  by (simp add: first_session_def loaded_activeQuizQuestions sampleQuestions_fst shuffleArray_def
      script_loaded_def first_low_def random_index_def next_random_def QUIZ_LENGTH_def)

lemma first_session_rng: "rng first_session = half"
  by (simp add: first_session_def loadQuestionsAndInit_def tryLoad_Bank initQuiz_rng
      sampleQuestions_def shuffleArray_def split_beta river_def
      script_loaded_def first_low_def random_index_def next_random_def QUIZ_LENGTH_def half_def)

subsection \<open>The loader on arbitrary entries\<close>

lemma as_entries_showResults: "showResults (as_entries st) = as_entries (showResults st)"
  by (simp add: as_entries_def showResults_def showMessage_def)

lemma as_entries_updateScoreDisplay:
  "updateScoreDisplay (as_entries st) = as_entries (updateScoreDisplay st)"
  by (simp add: as_entries_def updateScoreDisplay_def)

lemma loadQuestion_any_records:
  "loadQuestion_any (as_entries st) = Returned (as_entries (loadQuestion st))"
  by (simp add: loadQuestion_any_def loadQuestion_def as_entries_showResults Let_def split_beta)
     (simp add: as_entries_def split_beta)

lemma initQuiz_any_records:
  "initQuiz_any (as_entries st) = Returned (as_entries (initQuiz st))"
proof -
  have "(updateScoreDisplay ((as_entries st)\<lparr>currentQuestionIndex := 0, score := 0, questionAnswered := False\<rparr>))
          \<lparr>restartButton := classList_add [''hidden''] (restartButton (as_entries st)),
           resultMessage := classList_add [''hidden''] (resultMessage (as_entries st))\<rparr> =
        as_entries ((updateScoreDisplay (st\<lparr>currentQuestionIndex := 0, score := 0, questionAnswered := False\<rparr>))
          \<lparr>restartButton := classList_add [''hidden''] (restartButton st),
           resultMessage := classList_add [''hidden''] (resultMessage st)\<rparr>)"
    by (simp add: as_entries_def updateScoreDisplay_def)
  then show ?thesis
    by (simp only: initQuiz_any_def initQuiz_def loadQuestion_any_records)
qed

lemma shuffle_loop_rng: "snd (shuffle_loop i xs g) = (next_random ^^ i) g"
  by (induction i arbitrary: xs g) (simp_all add: Let_def funpow_swap1)

lemma shuffleArray_rng: "snd (shuffleArray xs g) = (next_random ^^ (length xs - 1)) g"
  by (cases "xs = []") (simp_all add: shuffleArray_def shuffle_loop_rng)

lemma sampleQuestions_map:
  assumes "\<forall>n. 0 \<le> g n \<and> g n < 1"
  shows "sampleQuestions (map f bank) g =
         (map f (fst (sampleQuestions bank g)), snd (sampleQuestions bank g))"
proof -
  have "snd (shuffleArray (map f bank) g) = snd (shuffleArray bank g)"
    by (simp add: shuffleArray_rng)
  then show ?thesis
    using shuffleArray_map [OF assms, of f bank]
    by (simp add: sampleQuestions_def split_beta take_map)
qed

text \<open>On a payload of question records the two loaders agree.\<close>

lemma loadQuestionsAndInit_any_records:
  assumes "\<forall>n. 0 \<le> rng st n \<and> rng st n < 1"
  shows "loadQuestionsAndInit_any (map_fetch_result Record res) (as_entries st) =
         as_entries (loadQuestionsAndInit res st)"
proof (cases res)
  case Rejected
  then show ?thesis
    by (simp add: loadQuestionsAndInit_any_def tryLoad_any_def loadQuestionsAndInit_def
        tryLoad_def as_entries_def)
next
  case (Response ok status body)
  show ?thesis
  proof (cases body)
    case NotJson
    with Response show ?thesis
      by (simp add: loadQuestionsAndInit_any_def tryLoad_any_def loadQuestionsAndInit_def
          tryLoad_def as_entries_def)
  next
    case NotSpreadable
    with Response show ?thesis
      by (simp add: loadQuestionsAndInit_any_def tryLoad_any_def loadQuestionsAndInit_def
          tryLoad_def as_entries_def)
  next
    case (Bank bank)
    show ?thesis
    proof (cases ok)
      case False
      with Response show ?thesis
        by (simp add: loadQuestionsAndInit_any_def tryLoad_any_def loadQuestionsAndInit_def
            tryLoad_def as_entries_def)
    next
      case True
      have st: "(as_entries st)\<lparr>activeQuizQuestions := map Record (fst (sampleQuestions bank (rng st))),
                   rng := snd (sampleQuestions bank (rng st))\<rparr> =
                as_entries (st\<lparr>activeQuizQuestions := fst (sampleQuestions bank (rng st)),
                   rng := snd (sampleQuestions bank (rng st))\<rparr>)"
        by (simp add: as_entries_def)
      have r: "rng (as_entries st) = rng st" by (simp add: as_entries_def)
      have "tryLoad_any (map_fetch_result Record res) (as_entries st) =
            Returned (as_entries (initQuiz (st\<lparr>activeQuizQuestions := fst (sampleQuestions bank (rng st)),
                   rng := snd (sampleQuestions bank (rng st))\<rparr>)))"
        using Response Bank True sampleQuestions_map [OF assms, of Record bank]
        by (simp add: tryLoad_any_def r st initQuiz_any_records)
      then show ?thesis
        using Response Bank True
        by (simp add: loadQuestionsAndInit_any_def loadQuestionsAndInit_def tryLoad_Bank)
    qed
  qed
qed









section \<open>The claims\<close>

subsection \<open>Answer evaluation\<close>

text \<open>
  C1, as stated, fails in its second clause: the repeat call hands back no indicator.
  After a first click that scored, a second call returns \<open>undefined\<close>, which is what the
  first call returned.
\<close>

theorem checkAnswer_returns_counterexample:
  "questionAnswered (checkAnswer 0 ''sturgeon'' ''sturgeon'' (script_loaded half)) \<and>
   checkAnswer_value 1 ''sturgeon'' ''sturgeon''
     (checkAnswer 0 ''sturgeon'' ''sturgeon'' (script_loaded half)) = Undefined \<and>
   checkAnswer_value 0 ''sturgeon'' ''sturgeon'' (script_loaded half) = Undefined"
  by (simp add: checkAnswer_value_def checkAnswer_def Let_def showMessage_fields
      updateScoreDisplay_fields script_loaded_def)

text \<open>
  C1, amended. Once the current question is answered, a further call of \<open>checkAnswer\<close>
  returns at its first line: the state it leaves is the state it found, whatever button,
  option and answer it is called with. In particular the score, the answered flag and the
  question index are those of before. The call returns \<open>undefined\<close>.
\<close>

theorem checkAnswer_already_answered:
  assumes "questionAnswered st"
  shows "checkAnswer selectedButton selectedOption correctAnswer st = st \<and>
         score (checkAnswer selectedButton selectedOption correctAnswer st) = score st \<and>
         questionAnswered (checkAnswer selectedButton selectedOption correctAnswer st) \<and>
         currentQuestionIndex (checkAnswer selectedButton selectedOption correctAnswer st) =
           currentQuestionIndex st \<and>
         checkAnswer_value selectedButton selectedOption correctAnswer st = Undefined"
  using assms by (simp add: checkAnswer_def checkAnswer_value_def)

text \<open>A second click on the right answer, after a first one that scored: the score stays 1.\<close>

theorem checkAnswer_already_answered_witness:
  "questionAnswered (checkAnswer 0 ''sturgeon'' ''sturgeon'' (script_loaded half)) \<and>
   score (checkAnswer 0 ''sturgeon'' ''sturgeon'' (script_loaded half)) = 1 \<and>
   score (checkAnswer 1 ''sturgeon'' ''sturgeon''
            (checkAnswer 0 ''sturgeon'' ''sturgeon'' (script_loaded half))) = 1"
proof -
  have first: "questionAnswered (checkAnswer 0 ''sturgeon'' ''sturgeon'' (script_loaded half)) \<and>
      score (checkAnswer 0 ''sturgeon'' ''sturgeon'' (script_loaded half)) = 1"
    by (simp add: checkAnswer_def Let_def showMessage_fields updateScoreDisplay_fields
        script_loaded_def)
  with checkAnswer_already_answered
    [of "checkAnswer 0 ''sturgeon'' ''sturgeon'' (script_loaded half)" 1 "''sturgeon''" "''sturgeon''"]
  show ?thesis by simp
qed

text \<open>
  C2. On a question not yet answered, \<open>checkAnswer\<close> compares the submitted option with
  the correct answer by equality of the two strings: the score goes up by exactly one
  when they are equal and stays as it is when they differ, and in both cases the
  question is marked answered. The question index is not touched.
\<close>

theorem checkAnswer_exact_match:
  assumes "\<not> questionAnswered st"
  shows "score (checkAnswer selectedButton selectedOption correctAnswer st) =
           (if selectedOption = correctAnswer then score st + 1 else score st) \<and>
         questionAnswered (checkAnswer selectedButton selectedOption correctAnswer st) \<and>
         currentQuestionIndex (checkAnswer selectedButton selectedOption correctAnswer st) =
           currentQuestionIndex st"
  using assms
  by (simp add: checkAnswer_def Let_def showMessage_fields updateScoreDisplay_fields)

text \<open>A wrong option, the right one, and the right one in another letter case.\<close>

theorem checkAnswer_exact_match_witness:
  "\<not> questionAnswered (script_loaded half) \<and>
   score (checkAnswer 0 ''catfish'' ''sturgeon'' (script_loaded half)) = 0 \<and>
   score (checkAnswer 0 ''sturgeon'' ''sturgeon'' (script_loaded half)) = 1 \<and>
   score (checkAnswer 0 ''Sturgeon'' ''sturgeon'' (script_loaded half)) = 0 \<and>
   questionAnswered (checkAnswer 0 ''catfish'' ''sturgeon'' (script_loaded half))"
  using checkAnswer_exact_match [of "script_loaded half" 0 "''catfish''" "''sturgeon''"]
    checkAnswer_exact_match [of "script_loaded half" 0 "''sturgeon''" "''sturgeon''"]
    checkAnswer_exact_match [of "script_loaded half" 0 "''Sturgeon''" "''sturgeon''"]
  by (simp add: script_loaded_def)

text \<open>
  C9. When the submitted option differs from the correct answer, the message shown is
  one entry of \<open>incorrectMessages\<close> followed by a space, the words
  \<open>The correct answer was:\<close>, the correct answer as given, and a full stop. This holds
  for every draw: whichever index the draw selects, it selects an entry of the pool.
\<close>

theorem incorrect_feedback_message:
  assumes "\<not> questionAnswered st" "selectedOption \<noteq> correctAnswer"
    and "0 \<le> rng st 0 \<and> rng st 0 < 1"
  shows "\<exists>prefix. prefix \<in> set incorrectMessages \<and>
           textContent (resultMessage (checkAnswer selectedButton selectedOption correctAnswer st)) =
             prefix @ '' '' @ ''The correct answer was: '' @ correctAnswer @ ''.''"
proof -
  let ?k = "random_index (rng st 0) (length incorrectMessages)"
  have "?k < length incorrectMessages"
    using assms(3) by (intro random_index_less) (simp_all add: incorrectMessages_def)
  then have "incorrectMessages ! ?k \<in> set incorrectMessages" by (rule nth_mem)
  moreover have
    "textContent (resultMessage (checkAnswer selectedButton selectedOption correctAnswer st)) =
       incorrectMessages ! ?k @ '' '' @ ''The correct answer was: '' @ correctAnswer @ ''.''"
    using assms(1,2)
    by (simp add: checkAnswer_def Let_def showMessage_fields updateScoreDisplay_fields)
  ultimately show ?thesis by blast
qed

text \<open>
  With the draw one half the product is 2.5, in the script as here, and the prefix is the
  third of the pool.
\<close>

theorem incorrect_feedback_message_witness:
  "\<not> questionAnswered (script_loaded half) \<and> ''catfish'' \<noteq> ''sturgeon'' \<and>
   ''That's not the right spectral band.'' \<in> set incorrectMessages \<and>
   textContent (resultMessage (checkAnswer 0 ''catfish'' ''sturgeon'' (script_loaded half))) =
     ''That's not the right spectral band. The correct answer was: sturgeon.''"
proof -
  have "textContent (resultMessage (checkAnswer 0 ''catfish'' ''sturgeon'' (script_loaded half))) =
     ''That's not the right spectral band. The correct answer was: sturgeon.''"
    by (simp add: checkAnswer_def Let_def showMessage_fields updateScoreDisplay_fields
        script_loaded_def half_def incorrectMessages_def random_index_def floor_numeral_quotient)
  with incorrect_feedback_message [of "script_loaded half" "''catfish''" "''sturgeon''" 0]
  show ?thesis by (simp add: script_loaded_def half_def incorrectMessages_def)
qed

subsection \<open>Sampling the session's questions\<close>

text \<open>
  C3. When the bank holds at least ten records, a successful load leaves exactly ten
  active questions. They are the bank's records at ten different positions, so no
  record of the bank is taken twice: the sample is contained in the bank as a multiset,
  each of its records is one of the bank's, and it repeats no record when the bank
  repeats none.
\<close>

theorem sample_of_large_bank:
  assumes "QUIZ_LENGTH \<le> length bank" "\<forall>n. 0 \<le> rng st n \<and> rng st n < 1"
  shows "length (activeQuizQuestions (loadQuestionsAndInit (Response True status (Bank bank)) st)) = 10 \<and>
         (\<exists>ps. distinct ps \<and> set ps \<subseteq> {..<length bank} \<and> length ps = 10 \<and>
               activeQuizQuestions (loadQuestionsAndInit (Response True status (Bank bank)) st) =
                 map (nth bank) ps) \<and>
         mset (activeQuizQuestions (loadQuestionsAndInit (Response True status (Bank bank)) st))
           \<subseteq># mset bank \<and>
         set (activeQuizQuestions (loadQuestionsAndInit (Response True status (Bank bank)) st))
           \<subseteq> set bank \<and>
         (distinct bank \<longrightarrow>
            distinct (activeQuizQuestions (loadQuestionsAndInit (Response True status (Bank bank)) st)))"
proof -
  let ?sample = "activeQuizQuestions (loadQuestionsAndInit (Response True status (Bank bank)) st)"
  have eq: "?sample = fst (sampleQuestions bank (rng st))" by (rule loaded_activeQuizQuestions)
  have m: "min QUIZ_LENGTH (length bank) = 10" using assms(1) by (simp add: QUIZ_LENGTH_def)
  have len: "length ?sample = 10" by (simp add: eq sampleQuestions_length m)
  from sampleQuestions_positions [OF assms(2), of bank] m have
    pos: "\<exists>ps. distinct ps \<and> set ps \<subseteq> {..<length bank} \<and> length ps = 10 \<and>
               ?sample = map (nth bank) ps"
    by (simp add: eq)
  have sub: "mset ?sample \<subseteq># mset bank" using sampleQuestions_mset [OF assms(2)] by (simp add: eq)
  have subset: "set ?sample \<subseteq> set bank" using set_mset_mono [OF sub] by simp
  have dist: "distinct bank \<longrightarrow> distinct ?sample"
  proof
    assume db: "distinct bank"
    from pos obtain ps where ps: "distinct ps" "set ps \<subseteq> {..<length bank}"
      and sm: "?sample = map (nth bank) ps" by blast
    have "inj_on (nth bank) (set ps)"
      using db ps(2) by (intro inj_on_nth) auto
    with ps(1) show "distinct ?sample" by (simp add: sm distinct_map)
  qed
  from len pos sub subset dist show ?thesis by (intro conjI)
qed

text \<open>A bank of twelve numbered questions.\<close>

theorem sample_of_large_bank_witness:
  "QUIZ_LENGTH \<le> length (map numbered [0..<12]) \<and>
   length (activeQuizQuestions
     (loadQuestionsAndInit (Response True 200 (Bank (map numbered [0..<12]))) (script_loaded half))) = 10"
  using sample_of_large_bank [of "map numbered [0..<12]" "script_loaded half" 200]
  by (simp add: QUIZ_LENGTH_def script_loaded_def half_def)

text \<open>
  C4. When the bank holds fewer than ten records, a successful load leaves as many
  active questions as the bank has records, and they are the bank's records, each as
  often as the bank holds it: nothing is added and nothing is repeated. The load does not
  fail: the \<open>try\<close> block ends with the started session and nothing is written to the
  console.
\<close>

theorem sample_of_small_bank:
  assumes "length bank < QUIZ_LENGTH" "\<forall>n. 0 \<le> rng st n \<and> rng st n < 1"
  shows "length (activeQuizQuestions (loadQuestionsAndInit (Response True status (Bank bank)) st)) =
           length bank \<and>
         mset (activeQuizQuestions (loadQuestionsAndInit (Response True status (Bank bank)) st)) =
           mset bank \<and>
         console (loadQuestionsAndInit (Response True status (Bank bank)) st) = console st \<and>
         tryLoad (Response True status (Bank bank)) st =
           Inr (loadQuestionsAndInit (Response True status (Bank bank)) st)"
proof -
  let ?st' = "loadQuestionsAndInit (Response True status (Bank bank)) st"
  have eq: "activeQuizQuestions ?st' = fst (sampleQuestions bank (rng st))"
    by (rule loaded_activeQuizQuestions)
  have "length (activeQuizQuestions ?st') = length bank"
    using assms(1) by (simp add: eq sampleQuestions_length)
  moreover have "mset (activeQuizQuestions ?st') = mset bank"
    using assms by (simp add: eq sampleQuestions_short)
  moreover have "console ?st' = console st"
    by (simp add: loadQuestionsAndInit_def tryLoad_Bank initQuiz_fields)
  moreover have "tryLoad (Response True status (Bank bank)) st = Inr ?st'"
    by (simp add: loadQuestionsAndInit_def tryLoad_Bank)
  ultimately show ?thesis by (intro conjI)
qed

text \<open>A bank of three, with every draw 0: the session holds the three, in another order.\<close>

theorem sample_of_small_bank_witness:
  "length [fish, river, numbered 7] < QUIZ_LENGTH \<and>
   activeQuizQuestions
     (loadQuestionsAndInit (Response True 200 (Bank [fish, river, numbered 7])) (script_loaded low)) =
     [river, numbered 7, fish] \<and>
   mset [river, numbered 7, fish] = mset [fish, river, numbered 7]"
proof -
  have "activeQuizQuestions
     (loadQuestionsAndInit (Response True 200 (Bank [fish, river, numbered 7])) (script_loaded low)) =
     [river, numbered 7, fish]"
    by (simp add: loaded_activeQuizQuestions sampleQuestions_fst shuffleArray_def script_loaded_def
        low_def random_index_def next_random_def QUIZ_LENGTH_def numeral_2_eq_2)
  with sample_of_small_bank [of "[fish, river, numbered 7]" "script_loaded low" 200]
  show ?thesis
    by (simp add: QUIZ_LENGTH_def script_loaded_def low_def)
qed

subsection \<open>Presenting a question\<close>

text \<open>
  C5. When there is a current question, \<open>loadQuestion\<close> puts on the buttons a
  rearrangement of that question's options: as multisets the button texts and the
  options are equal, whatever the draws. So the text of the correct answer is on a
  button exactly when it is among the options.
\<close>

theorem presented_options_permutation:
  assumes "currentQuestionIndex st < length (activeQuizQuestions st)"
    and "\<forall>n. 0 \<le> rng st n \<and> rng st n < 1"
  shows "mset (map textContent (optionsContainer (loadQuestion st))) =
           mset (options (activeQuizQuestions st ! currentQuestionIndex st)) \<and>
         (answer (activeQuizQuestions st ! currentQuestionIndex st)
            \<in> set (map textContent (optionsContainer (loadQuestion st)))) =
         (answer (activeQuizQuestions st ! currentQuestionIndex st)
            \<in> set (options (activeQuizQuestions st ! currentQuestionIndex st)))"
proof -
  let ?q = "activeQuizQuestions st ! currentQuestionIndex st"
  let ?shown = "map textContent (optionsContainer (loadQuestion st))"
  have m: "mset ?shown = mset (options ?q)"
    using assms(1) shuffleArray_mset [OF assms(2)] by (simp add: loadQuestion_presented)
  then have "set ?shown = set (options ?q)" by (rule mset_eq_setD)
  with m show ?thesis by simp
qed

text \<open>The fish question with every draw 0.\<close>

theorem presented_options_permutation_witness:
  "currentQuestionIndex ((script_loaded low)\<lparr>activeQuizQuestions := [fish]\<rparr>)
     < length (activeQuizQuestions ((script_loaded low)\<lparr>activeQuizQuestions := [fish]\<rparr>)) \<and>
   map textContent
     (optionsContainer (loadQuestion ((script_loaded low)\<lparr>activeQuizQuestions := [fish]\<rparr>))) =
     [''sturgeon'', ''trout'', ''catfish''] \<and>
   mset [''sturgeon'', ''trout'', ''catfish''] = mset (options fish)"
proof -
  have "map textContent
     (optionsContainer (loadQuestion ((script_loaded low)\<lparr>activeQuizQuestions := [fish]\<rparr>))) =
     [''sturgeon'', ''trout'', ''catfish'']"
    by (simp add: loadQuestion_presented shuffleArray_def script_loaded_def fish_def
        low_def random_index_def next_random_def numeral_2_eq_2)
  with presented_options_permutation [of "(script_loaded low)\<lparr>activeQuizQuestions := [fish]\<rparr>"]
  show ?thesis by (simp add: script_loaded_def low_def fish_def)
qed

subsection \<open>Restart\<close>

text \<open>
  C6, as stated, fails on \<open>initQuiz\<close>, the function that starts a session again. The
  example session holds \<open>river\<close> then \<open>fish\<close>, drawn from the bank \<open>fish\<close>, \<open>river\<close>.
  Restarting it leaves the same two questions in the same order, although sampling the
  bank again with the draws at hand would put \<open>fish\<close> first.
\<close>

theorem restart_replays_counterexample:
  "activeQuizQuestions first_session = [river, fish] \<and>
   activeQuizQuestions (initQuiz first_session) = [river, fish] \<and>
   fst (sampleQuestions [fish, river] (rng first_session)) = [fish, river] \<and>
   activeQuizQuestions (initQuiz first_session) \<noteq>
     fst (sampleQuestions [fish, river] (rng first_session))"
proof -
  have a: "activeQuizQuestions (initQuiz first_session) = [river, fish]"
    by (simp add: initQuiz_fields first_session_questions)
  have b: "fst (sampleQuestions [fish, river] (rng first_session)) = [fish, river]"
    by (simp add: first_session_rng sampleQuestions_fst shuffleArray_def half_def
        random_index_def next_random_def QUIZ_LENGTH_def)
  have c: "[river, fish] \<noteq> [fish, river]"
    by (simp add: river_def fish_def)
  from a b c show ?thesis by (simp add: first_session_questions)
qed

text \<open>
  C6, amended. \<open>initQuiz\<close> sets the score to 0, the question index to 0 and the answered
  flag to false, and it does not sample: the active questions stay the same records in
  the same order.
\<close>

theorem restart_resets_session:
  "score (initQuiz st) = 0 \<and> currentQuestionIndex (initQuiz st) = 0 \<and>
   \<not> questionAnswered (initQuiz st) \<and>
   activeQuizQuestions (initQuiz st) = activeQuizQuestions st"
  by (simp add: initQuiz_fields)

theorem restart_resets_session_witness:
  "score (initQuiz (first_session\<lparr>score := 2, currentQuestionIndex := 2\<rparr>)) = 0 \<and>
   currentQuestionIndex (initQuiz (first_session\<lparr>score := 2, currentQuestionIndex := 2\<rparr>)) = 0 \<and>
   activeQuizQuestions (initQuiz (first_session\<lparr>score := 2, currentQuestionIndex := 2\<rparr>)) =
     [river, fish]"
  using restart_resets_session [of "first_session\<lparr>score := 2, currentQuestionIndex := 2\<rparr>"]
  by (simp add: first_session_questions)

subsection \<open>Loading\<close>




subsection \<open>The summary\<close>

text \<open>
  C8. The closing message that \<open>showResults\<close> shows is fixed by the score and the number
  of active questions alone: the perfect-score sentence when the two are equal, and
  otherwise the sentence that spells out both numbers. It is the perfect-score sentence
  only when they are equal. No random number is drawn.
\<close>

theorem summary_message:
  "textContent (resultMessage (showResults st)) =
     (if score st = length (activeQuizQuestions st)
      then ''You've achieved perfect resolution! All correct!''
      else ''You scored '' @ show_nat (score st) @ '' out of '' @
           show_nat (length (activeQuizQuestions st)) @ ''. Keep learning about our world!'') \<and>
   (textContent (resultMessage (showResults st)) = ''You've achieved perfect resolution! All correct!''
      \<longleftrightarrow> score st = length (activeQuizQuestions st)) \<and>
   rng (showResults st) = rng st"
  by (simp add: showResults_fields finalMessage_def)

text \<open>Two of three, and three of three.\<close>

theorem summary_message_witness:
  "textContent (resultMessage (showResults
     ((script_loaded half)\<lparr>score := 2, activeQuizQuestions := [fish, river, numbered 12]\<rparr>))) =
     ''You scored 2 out of 3. Keep learning about our world!'' \<and>
   textContent (resultMessage (showResults
     ((script_loaded half)\<lparr>score := 3, activeQuizQuestions := [fish, river, numbered 12]\<rparr>))) =
     ''You've achieved perfect resolution! All correct!''"
  using summary_message
      [of "(script_loaded half)\<lparr>score := 2, activeQuizQuestions := [fish, river, numbered 12]\<rparr>"]
    summary_message
      [of "(script_loaded half)\<lparr>score := 3, activeQuizQuestions := [fish, river, numbered 12]\<rparr>"]
  by (simp add: script_loaded_def show_nat.simps digit_char_def)

text \<open>
  C10. With no active questions, \<open>loadQuestion\<close> goes straight to \<open>showResults\<close>, and a
  session started by \<open>initQuiz\<close> is at once on the completion screen: the heading reads
  \<open>Quiz Complete!\<close>, the message is the perfect-score sentence (the score 0 equals the
  number of questions 0) and is visible, the restart button is visible, and there are no
  option buttons.
\<close>

theorem empty_session_completes:
  assumes "activeQuizQuestions st = []"
  shows "loadQuestion st = showResults st \<and>
         textContent (questionText (initQuiz st)) = ''Quiz Complete!'' \<and>
         textContent (resultMessage (initQuiz st)) =
           ''You've achieved perfect resolution! All correct!'' \<and>
         ''hidden'' \<notin> set (classList (resultMessage (initQuiz st))) \<and>
         ''hidden'' \<notin> set (classList (restartButton (initQuiz st))) \<and>
         optionsContainer (initQuiz st) = [] \<and>
         score (initQuiz st) = 0"
proof -
  let ?st = "(updateScoreDisplay (st\<lparr>currentQuestionIndex := 0, score := 0, questionAnswered := False\<rparr>))
          \<lparr>restartButton := classList_add [''hidden''] (restartButton st),
           resultMessage := classList_add [''hidden''] (resultMessage st)\<rparr>"
  have l: "loadQuestion st = showResults st" using assms by (simp add: loadQuestion_def)
  have i: "initQuiz st = showResults ?st"
    using assms by (simp add: initQuiz_def loadQuestion_def updateScoreDisplay_fields)
  have a: "activeQuizQuestions ?st = []" "score ?st = 0"
    using assms by (simp_all add: updateScoreDisplay_fields)
  have t: "textContent (resultMessage (initQuiz st)) =
           ''You've achieved perfect resolution! All correct!''"
    by (simp add: i showResults_fields a finalMessage_def)
  have v: "''hidden'' \<notin> set (classList (resultMessage (initQuiz st)))"
    unfolding i showResults_def by (rule showMessage_visible) simp_all
  have r: "''hidden'' \<notin> set (classList (restartButton (initQuiz st)))"
    unfolding i showResults_def by (simp add: showMessage_fields hidden_removed)
  from l t v r show ?thesis by (simp add: i showResults_fields a)
qed

text \<open>The page right after the script is read has no active questions.\<close>

theorem empty_session_completes_witness:
  "activeQuizQuestions (script_loaded half) = [] \<and>
   textContent (questionText (initQuiz (script_loaded half))) = ''Quiz Complete!'' \<and>
   textContent (resultMessage (initQuiz (script_loaded half))) =
     ''You've achieved perfect resolution! All correct!'' \<and>
   textContent (scoreDisplay (initQuiz (script_loaded half))) = ''Score: 0 / 10''"
proof -
  have "textContent (scoreDisplay (initQuiz (script_loaded half))) = ''Score: 0 / 10''"
    by (simp add: initQuiz_def loadQuestion_def showResults_def showMessage_def
        updateScoreDisplay_def script_loaded_def QUIZ_LENGTH_def show_nat.simps digit_char_def)
  with empty_session_completes [of "script_loaded half"] show ?thesis
    by (simp add: script_loaded_def)
qed

end
